theory Spec2Isabelle
  imports Main "HOL-Library.Sublist"
begin

section \<open>Values, errors and ordered dictionaries\<close>

text \<open>
  Byte strings (\<open>bytes\<close>) and text strings are both lists of characters. The values
  that the YAML loader hands over are \<open>None\<close>, booleans, integers, strings, lists and
  ordered dictionaries with string keys; \<open>PTuple\<close> is the tuple that
  \<open>PackageConfigYaml.get\<close> builds. A dictionary is an association list in insertion
  order.
\<close>

type_synonym bytes = string

datatype pyval =
    PNone
  | PBool bool
  | PInt int
  | PStr string
  | PList "pyval list"
  | PTuple "pyval list"
  | PDict "(string \<times> pyval) list"

datatype error =
    SysExit string
  | KeyError string
  | TypeError
  | AttributeError
  | AssertionError string
  | ValueError string
  | IndexError
  | IOError string
  | YAMLError string

type_synonym ordered_dict = "(string \<times> pyval) list"

text \<open>\<open>key in d\<close>, \<open>d.get(key)\<close>, \<open>d[key] = value\<close> and \<open>d.pop(key)\<close>.\<close>

definition od_contains :: "('k \<times> 'v) list \<Rightarrow> 'k \<Rightarrow> bool" where
  "od_contains d k = (k \<in> set (map fst d))"

definition od_get :: "('k \<times> 'v) list \<Rightarrow> 'k \<Rightarrow> 'v option" where
  "od_get d k = map_of d k"

fun od_set :: "('k \<times> 'v) list \<Rightarrow> 'k \<Rightarrow> 'v \<Rightarrow> ('k \<times> 'v) list" where
  "od_set [] k v = [(k, v)]"
| "od_set ((k', v') # d) k v = (if k' = k then (k, v) # d else (k', v') # od_set d k v)"

definition od_pop :: "ordered_dict \<Rightarrow> string \<Rightarrow> error + (pyval \<times> ordered_dict)" where
  "od_pop d k =
     (case map_of d k of
        None \<Rightarrow> Inl (KeyError k)
      | Some v \<Rightarrow> Inr (v, filter (\<lambda>kv. fst kv \<noteq> k) d))"

text \<open>Truth value of an object, as \<open>not module_name\<close> tests it.\<close>

fun truthy :: "pyval \<Rightarrow> bool" where
  "truthy PNone = False"
| "truthy (PBool b) = b"
| "truthy (PInt i) = (i \<noteq> 0)"
| "truthy (PStr s) = (s \<noteq> [])"
| "truthy (PList xs) = (xs \<noteq> [])"
| "truthy (PTuple xs) = (xs \<noteq> [])"
| "truthy (PDict d) = (d \<noteq> [])"

text \<open>
  \<open>"/" in module_name\<close>: a character test on a string, an element test on a list or
  tuple, a key test on a dictionary, and a \<open>TypeError\<close> on anything else.
\<close>

fun slash_in :: "pyval \<Rightarrow> error + bool" where
  "slash_in (PStr s) = Inr (CHR ''/'' \<in> set s)"
| "slash_in (PList xs) = Inr (PStr ''/'' \<in> set xs)"
| "slash_in (PTuple xs) = Inr (PStr ''/'' \<in> set xs)"
| "slash_in (PDict d) = Inr (od_contains d ''/'')"
| "slash_in _ = Inl TypeError"

section \<open>PackageConfigYaml\<close>

record PackageConfigYaml =
  name :: string
  data :: "(string \<times> ordered_dict) list"

text \<open>
  The messages of the four \<open>general.sysexit\<close> calls of the constructor, with
  the text that \<open>%s\<close> puts in for the module name as an argument.
\<close>

definition msg_empty :: "string \<Rightarrow> string" where
  "msg_empty n =
     ''Error, invalid config in '' @ [CHR 0x27] @ n @ [CHR 0x27]
       @ '' looks like an empty module name was given.''"

definition msg_path :: "string \<Rightarrow> string \<Rightarrow> string" where
  "msg_path n m =
     ''Error, invalid module name in '' @ [CHR 0x27] @ n @ [CHR 0x27]
       @ '' looks like a file path '' @ [CHR 0x27] @ m @ [CHR 0x27] @ ''.''"

definition msg_invalid :: "string \<Rightarrow> string \<Rightarrow> string" where
  "msg_invalid n m =
     ''Error, invalid module name in '' @ [CHR 0x27] @ n @ [CHR 0x27]
       @ '' not valid '' @ [CHR 0x27] @ m @ [CHR 0x27] @ ''.''"

definition msg_duplicate :: "string \<Rightarrow> string" where
  "msg_duplicate m =
     ''Duplicate module-name '' @ [CHR 0x27] @ m @ [CHR 0x27] @ '' encountered.''"

text \<open>
  The text that \<open>%s\<close> shows for a module name: a string stands for itself. Of any
  other object it is the text that \<open>str\<close> gives, which for a mapping comes from the
  class \<open>OrderedDict\<close> of another module; that conversion is the parameter
  \<open>conv\<close>.
\<close>

fun str_of :: "(pyval \<Rightarrow> string) \<Rightarrow> pyval \<Rightarrow> string" where
  "str_of conv (PStr s) = s"
| "str_of conv v = conv v"


text \<open>
  The list that the constructor gets holds objects, and the YAML loader may put one
  mapping object at several places of it (an alias of an anchor). The elements of the
  list are therefore addresses into a store of objects, and \<open>item.pop\<close> changes the
  object at its address for every place that holds it.
\<close>

type_synonym store = "nat \<Rightarrow> pyval"

datatype pydata = DataList "nat list" | DataOther pyval

text \<open>
  One round of the loop of \<open>__init__\<close>, lines 58 to 81, for the element at address
  \<open>a\<close>: the dictionary \<open>d\<close> of the document called \<open>n\<close> gets the record,
  and the record loses its \<open>module-name\<close>. An element that is not a mapping has no
  usable \<open>pop\<close>. \<open>checkModuleName\<close> comes from another module and is a
  parameter. Only a string can be looked up in \<open>self.data\<close> after passing the
  earlier tests; lists and dictionaries are unhashable, and the loader builds no tuples.
  When a check ends the construction, nothing is returned but the exception. What a
  record holds under its keys is a value of its own: a payload that is itself one of
  the records of the list is outside this model.
\<close>

definition init_item ::
  "(pyval \<Rightarrow> bool) \<Rightarrow> (pyval \<Rightarrow> string) \<Rightarrow> string \<Rightarrow> store
     \<Rightarrow> (string \<times> ordered_dict) list \<Rightarrow> nat
     \<Rightarrow> error + (store \<times> (string \<times> ordered_dict) list)" where
  "init_item checkModuleName conv n objs d a =
     (case objs a of
        PDict item \<Rightarrow>
          (case od_pop item ''module-name'' of
             Inl e \<Rightarrow> Inl e
           | Inr (module_name, item') \<Rightarrow>
               if \<not> truthy module_name then Inl (SysExit (msg_empty n))
               else (case slash_in module_name of
                       Inl e \<Rightarrow> Inl e
                     | Inr True \<Rightarrow> Inl (SysExit (msg_path n (str_of conv module_name)))
                     | Inr False \<Rightarrow>
                         if \<not> checkModuleName module_name
                         then Inl (SysExit (msg_invalid n (str_of conv module_name)))
                         else (case module_name of
                                 PStr m \<Rightarrow>
                                   if od_contains d m then Inl (SysExit (msg_duplicate m))
                                   else Inr (objs(a := PDict item'), od_set d m item')
                               | _ \<Rightarrow> Inl TypeError)))
      | PList xs \<Rightarrow> Inl TypeError
      | _ \<Rightarrow> Inl AttributeError)"

fun init_loop ::
  "(pyval \<Rightarrow> bool) \<Rightarrow> (pyval \<Rightarrow> string) \<Rightarrow> string \<Rightarrow> store
     \<Rightarrow> (string \<times> ordered_dict) list \<Rightarrow> nat list
     \<Rightarrow> error + (store \<times> (string \<times> ordered_dict) list)" where
  "init_loop checkModuleName conv n objs d [] = Inr (objs, d)"
| "init_loop checkModuleName conv n objs d (a # rest) =
     (case init_item checkModuleName conv n objs d a of
        Inl e \<Rightarrow> Inl e
      | Inr (objs', d') \<Rightarrow> init_loop checkModuleName conv n objs' d' rest)"

text \<open>
  \<open>PackageConfigYaml(name, data)\<close>: \<open>assert type(data) is list\<close>, then the loop.
  The argument is the store together with what \<open>data\<close> is.
\<close>

fun PackageConfigYaml_init ::
  "(pyval \<Rightarrow> bool) \<Rightarrow> (pyval \<Rightarrow> string) \<Rightarrow> string \<Rightarrow> store \<times> pydata
     \<Rightarrow> error + PackageConfigYaml" where
  "PackageConfigYaml_init checkModuleName conv n (objs, DataList refs) =
     (case init_loop checkModuleName conv n objs [] refs of
        Inl e \<Rightarrow> Inl e
      | Inr (objs', d) \<Rightarrow> Inr \<lparr>name = n, data = d\<rparr>)"
| "PackageConfigYaml_init checkModuleName conv n (objs, DataOther v) = Inl (AssertionError [])"

text \<open>\<open>get(name, section)\<close>, lines 86 to 100.\<close>

definition PackageConfigYaml_get :: "PackageConfigYaml \<Rightarrow> string \<Rightarrow> string \<Rightarrow> pyval" where
  "PackageConfigYaml_get self nm section =
     (let result =
        (case od_get (data self) nm of
           Some entry \<Rightarrow> (case od_get entry section of Some v \<Rightarrow> v | None \<Rightarrow> PTuple [])
         | None \<Rightarrow> PTuple [])
      in case result of PDict m \<Rightarrow> PTuple [PDict m] | _ \<Rightarrow> result)"

text \<open>
  \<open>update(other)\<close>, lines 108 to 114, with assertions enabled. The loop stops at the
  first key that \<open>self.data\<close> already has; the entries stored before it stay stored,
  so the dictionary is returned beside the error.
\<close>

fun update_loop ::
  "(string \<times> ordered_dict) list \<Rightarrow> (string \<times> ordered_dict) list
     \<Rightarrow> error option \<times> (string \<times> ordered_dict) list" where
  "update_loop d [] = (None, d)"
| "update_loop d ((k, v) # rest) =
     (if od_contains d k then (Some (AssertionError k), d)
      else update_loop (od_set d k v) rest)"

definition PackageConfigYaml_update ::
  "PackageConfigYaml \<Rightarrow> PackageConfigYaml \<Rightarrow> error option \<times> PackageConfigYaml" where
  "PackageConfigYaml_update self other =
     (case update_loop (data self) (data other) of
        (r, d) \<Rightarrow> (r, self\<lparr>data := d\<rparr>))"

section \<open>Operations on byte strings\<close>

definition LF :: char where "LF = CHR 0x0A"
definition CR :: char where "CR = CHR 0x0D"

text \<open>\<open>bytes.splitlines()\<close>: a line ends at \<open>\n\<close>, \<open>\r\<close> or \<open>\r\n\<close>; no line after the last end.\<close>

fun splitlines :: "bytes \<Rightarrow> bytes list" where
  "splitlines [] = []"
| "splitlines (c # cs) =
     (if c = LF then [] # splitlines cs
      else if c = CR then
        (case cs of
           [] \<Rightarrow> [[]]
         | d # ds \<Rightarrow> if d = LF then [] # splitlines ds else [] # splitlines cs)
      else (case splitlines cs of
              [] \<Rightarrow> [[c]]
            | l # ls \<Rightarrow> (c # l) # ls))"

text \<open>\<open>bytes.split()\<close> with no argument: the runs of bytes that are not ASCII whitespace.\<close>

definition is_space :: "char \<Rightarrow> bool" where
  "is_space c = (c \<in> set [CHR 0x20, CHR 0x09, CHR 0x0A, CHR 0x0D, CHR 0x0B, CHR 0x0C])"

fun split_ws_aux :: "bytes \<Rightarrow> bytes \<Rightarrow> bytes list" where
  "split_ws_aux cur [] = (if cur = [] then [] else [cur])"
| "split_ws_aux cur (c # cs) =
     (if is_space c then (if cur = [] then split_ws_aux [] cs else cur # split_ws_aux [] cs)
      else split_ws_aux (cur @ [c]) cs)"

definition split_ws :: "bytes \<Rightarrow> bytes list" where
  "split_ws s = split_ws_aux [] s"

text \<open>\<open>xs[i]\<close> for an index that is not negative.\<close>

definition py_index :: "'a list \<Rightarrow> nat \<Rightarrow> error + 'a" where
  "py_index xs i = (if i < length xs then Inr (xs ! i) else Inl IndexError)"

definition startswith :: "bytes \<Rightarrow> bytes \<Rightarrow> bool" where
  "startswith s p = prefix p s"

text \<open>\<open>sep in s\<close> on byte strings.\<close>

fun contains :: "bytes \<Rightarrow> bytes \<Rightarrow> bool" where
  "contains sep [] = (sep = [])"
| "contains sep (c # cs) = (prefix sep (c # cs) \<or> contains sep cs)"

text \<open>
  \<open>s.split(sep, maxsplit)\<close> for a separator that is not empty: \<open>find_sep\<close> cuts at
  the leftmost occurrence of the separator, and the search goes on behind it.
\<close>

fun find_sep :: "bytes \<Rightarrow> bytes \<Rightarrow> (bytes \<times> bytes) option" where
  "find_sep sep [] = (if sep = [] then Some ([], []) else None)"
| "find_sep sep (c # cs) =
     (if prefix sep (c # cs) then Some ([], drop (length sep) (c # cs))
      else (case find_sep sep cs of
              None \<Rightarrow> None
            | Some (a, r) \<Rightarrow> Some (c # a, r)))"

fun split_max :: "bytes \<Rightarrow> nat \<Rightarrow> bytes \<Rightarrow> bytes list" where
  "split_max sep 0 s = [s]"
| "split_max sep (Suc n) s =
     (case find_sep sep s of
        None \<Rightarrow> [s]
      | Some (a, r) \<Rightarrow> a # split_max sep n r)"

text \<open>\<open>sep.join(lines)\<close>.\<close>

fun join :: "bytes \<Rightarrow> bytes list \<Rightarrow> bytes" where
  "join sep [] = []"
| "join sep [l] = l"
| "join sep (l # ls) = l @ sep @ join sep ls"

section \<open>The checksum of a configuration file\<close>

definition header_sep :: bytes where
  "header_sep = LF # ''---'' @ [LF]"

text \<open>
  A text string is held as the bytes of its UTF-8 form, so that \<open>.encode("utf8")\<close>
  changes nothing.
\<close>

definition encode_utf8 :: "string \<Rightarrow> bytes" where
  "encode_utf8 s = s"

text \<open>\<open>getYamlFileChecksum\<close>, lines 154 to 159.\<close>

definition getYamlFileChecksum :: "bytes \<Rightarrow> error + bytes option" where
  "getYamlFileChecksum yaml_data =
     (let lines = splitlines yaml_data in
      if length lines > 4 \<and> startswith (lines ! 4) ''# checksum: ''
      then (case py_index (split_ws (lines ! 4)) 2 of
              Inl e \<Rightarrow> Inl e
            | Inr t \<Rightarrow> Inr (Some t))
      else Inr None)"

text \<open>
  \<open>_calculateYamlFileChecksum\<close>, lines 162 to 168. \<open>getStringHash\<close> comes from
  another module and is a parameter.
\<close>

definition calculateYamlFileChecksum :: "(bytes \<Rightarrow> string) \<Rightarrow> bytes \<Rightarrow> error + bytes" where
  "calculateYamlFileChecksum getStringHash yaml_data =
     (if \<not> contains header_sep yaml_data
      then Inl (ValueError ''Malformed yaml data without --- header'')
      else (case py_index (split_max header_sep 2 yaml_data) 1 of
              Inl e \<Rightarrow> Inl e
            | Inr body \<Rightarrow> Inr (encode_utf8 (getStringHash body))))"

text \<open>
  \<open>checkOrUpdateChecksum\<close>, lines 171 to 192. The files are a map from names to
  contents; the result is the exception that ended the call, if any, the files
  afterwards, and the messages given to \<open>logger.info\<close>.
\<close>

definition getFileContents :: "(string \<Rightarrow> bytes option) \<Rightarrow> string \<Rightarrow> error + bytes" where
  "getFileContents fs filename =
     (case fs filename of None \<Rightarrow> Inl (IOError filename) | Some b \<Rightarrow> Inr b)"

definition checkOrUpdateChecksum ::
  "(bytes \<Rightarrow> string) \<Rightarrow> (string \<Rightarrow> bytes option) \<Rightarrow> string \<Rightarrow> bool
     \<Rightarrow> error option \<times> (string \<Rightarrow> bytes option) \<times> string list" where
  "checkOrUpdateChecksum getStringHash fs filename update =
     (case getFileContents fs filename of
        Inl e \<Rightarrow> (Some e, fs, [])
      | Inr yaml_data_old \<Rightarrow>
          let lines = splitlines yaml_data_old in
          if length lines < 5 \<or> \<not> startswith (lines ! 4) ''# checksum:''
          then (Some (SysExit ''Make sure the file is autoformatted first.''), fs, [])
          else (case calculateYamlFileChecksum getStringHash yaml_data_old of
                  Inl e \<Rightarrow> (Some e, fs, [])
                | Inr c \<Rightarrow>
                    let lines' = lines[4 := ''# checksum: '' @ c];
                        yaml_data_new = join [LF] lines' @ [LF]
                    in if yaml_data_new \<noteq> yaml_data_old
                       then (if update
                             then (None, fs(filename \<mapsto> yaml_data_new),
                                   [''OK, updated checksum.''])
                             else (Some (SysExit
                                     ''Error, checksum does not match, use --update or enable commit hook.''),
                                   fs, []))
                       else (None, fs, [''OK, checksum valid.''])))"

section \<open>Loading and merging the package configuration\<close>

text \<open>
  What the module takes from outside: \<open>pkgutil.get_data\<close>, the YAML loader behind
  \<open>parseYaml\<close> (it hands over the objects it has built and what the document is),
  \<open>getStringHash\<close>, \<open>checkModuleName\<close>, the text of an object that is not
  a string, the option \<open>getUserProvidedYamlFiles\<close> and the files that
  \<open>getFileContents\<close> reads.
\<close>

record env =
  get_data :: "string \<Rightarrow> string \<Rightarrow> error + bytes option"
  parseYaml :: "bytes \<Rightarrow> error + store \<times> pydata"
  getStringHash :: "bytes \<Rightarrow> string"
  checkModuleName :: "pyval \<Rightarrow> bool"
  str_object :: "pyval \<Rightarrow> string"
  getUserProvidedYamlFiles :: "string list"
  files :: "string \<Rightarrow> bytes option"

text \<open>
  The state of the process: the objects of class \<open>PackageConfigYaml\<close> (an object is
  its index in \<open>heap\<close>, so two names for one object share its changes), the globals
  \<open>_yaml_cache\<close> and \<open>_package_config\<close>, the warnings given to
  \<open>general.warning\<close>, the contents passed to the YAML loader, in order, and the
  keys for which \<open>parsePackageYaml\<close> has called the loader, in order.
\<close>

record state =
  heap :: "PackageConfigYaml list"
  yaml_cache :: "string \<times> string \<Rightarrow> nat option"
  package_config :: "nat option"
  warnings :: "string list"
  parse_calls :: "bytes list"
  parsed_keys :: "(string \<times> string) list"

definition initial_state :: state where
  "initial_state =
     \<lparr>heap = [], yaml_cache = (\<lambda>k. None), package_config = None,
      warnings = [], parse_calls = [], parsed_keys = []\<rparr>"

text \<open>The value of the variable \<open>validated\<close> after lines 204 to 218.\<close>

definition validated :: "(bytes \<Rightarrow> string) \<Rightarrow> bytes \<Rightarrow> error + string" where
  "validated hash yaml_data =
     (let lines = splitlines yaml_data in
      if length lines > 4 then
        if startswith (lines ! 4) ''# checksum: '' then
          (case py_index (split_ws (lines ! 4)) 2 of
             Inl e \<Rightarrow> Inl e
           | Inr file_checksum \<Rightarrow>
               (case calculateYamlFileChecksum hash yaml_data of
                  Inl e \<Rightarrow> Inl e
                | Inr c \<Rightarrow> Inr (if file_checksum \<noteq> c then ''not matching'' else ''matching'')))
        else Inr ''not present''
      else Inr ''not present'')"

definition msg_using :: "string \<Rightarrow> string \<Rightarrow> string" where
  "msg_using filename v = ''Using file '' @ filename @ '' with '' @ v @ '' checksum.''"

text \<open>\<open>parsePackageYaml\<close>, lines 195 to 225.\<close>

definition parsePackageYaml ::
  "env \<Rightarrow> string \<Rightarrow> string \<Rightarrow> state \<Rightarrow> (error + nat) \<times> state" where
  "parsePackageYaml E package_name filename s =
     (case yaml_cache s (package_name, filename) of
        Some a \<Rightarrow> (Inr a, s)
      | None \<Rightarrow>
         (case get_data E package_name filename of
            Inl e \<Rightarrow> (Inl e, s)
          | Inr None \<Rightarrow> (Inl (IOError (''Cannot find '' @ package_name @ ''.'' @ filename)), s)
          | Inr (Some yaml_data) \<Rightarrow>
             (case validated (getStringHash E) yaml_data of
                Inl e \<Rightarrow> (Inl e, s)
              | Inr v \<Rightarrow>
                 let s1 = (if v \<noteq> ''matching''
                           then s\<lparr>warnings := warnings s @ [msg_using filename v]\<rparr>
                           else s);
                     s2 = s1\<lparr>parse_calls := parse_calls s1 @ [yaml_data],
                             parsed_keys := parsed_keys s1 @ [(package_name, filename)]\<rparr>
                 in (case parseYaml E yaml_data of
                       Inl e \<Rightarrow> (Inl e, s2)
                     | Inr parsed \<Rightarrow>
                        (case PackageConfigYaml_init (checkModuleName E) (str_object E) filename parsed of
                           Inl e \<Rightarrow> (Inl e, s2)
                         | Inr doc \<Rightarrow>
                            (Inr (length (heap s2)),
                             s2\<lparr>heap := heap s2 @ [doc],
                                yaml_cache :=
                                  (yaml_cache s2)((package_name, filename) \<mapsto> length (heap s2))\<rparr>))))))"








section \<open>Example inputs\<close>

definition example_doc :: PackageConfigYaml where
  "example_doc =
     \<lparr>name = ''t.yml'',
      data = [(''a.b'', [(''data-files'', PDict [(''dirs'', PList [PStr ''x''])]),
                         (''dlls'', PList [PDict [(''from_filenames'', PNone)]])])]\<rparr>"

text \<open>
  The value that a record holds under \<open>module-name\<close>, when the record is a mapping
  with that key.
\<close>

definition module_name_of :: "pyval \<Rightarrow> pyval option" where
  "module_name_of item = (case item of PDict d \<Rightarrow> map_of d ''module-name'' | _ \<Rightarrow> None)"

text \<open>
  A store of records: two different objects with the same module name, and the objects
  that the checks of the constructor tell apart.
\<close>

definition example_store :: store where
  "example_store =
     (\<lambda>a. PNone)
       (0 := PDict [(''module-name'', PStr ''foo.bar'')],
        1 := PDict [(''module-name'', PStr ''foo.bar''), (''dlls'', PNone)],
        2 := PDict [(''module-name'', PStr [])],
        3 := PDict [(''module-name'', PStr ''a/b'')],
        4 := PDict [(''module-name'', PStr ''x..y'')],
        5 := PDict [(''module-name'', PStr ''b''), (''dlls'', PNone)],
        6 := PDict [(''dlls'', PNone)],
        7 := PDict [(''module-name'', PList [PStr ''/''])],
        8 := PDict [(''module-name'', PInt 5)],
        9 := PDict [(''module-name'', PList [PStr ''q''])])"

text \<open>
  A check that refuses the name \<open>x..y\<close>, and a conversion to text that is right on
  the objects that the examples format: the list of the one string \<open>/\<close>, and
  \<open>None\<close>.
\<close>

definition example_check :: "pyval \<Rightarrow> bool" where
  "example_check v = (v \<noteq> PStr ''x..y'')"

definition example_text :: "pyval \<Rightarrow> string" where
  "example_text v =
     (if v = PList [PStr ''/''] then [CHR ''['', CHR 0x27, CHR ''/'', CHR 0x27, CHR '']'']
      else ''None'')"

definition doc_x :: PackageConfigYaml where
  "doc_x = \<lparr>name = ''a.yml'', data = [(''x'', [])]\<rparr>"

definition doc_x2 :: PackageConfigYaml where
  "doc_x2 = \<lparr>name = ''b.yml'', data = [(''x'', [(''dlls'', PNone)])]\<rparr>"

definition doc_y :: PackageConfigYaml where
  "doc_y = \<lparr>name = ''c.yml'', data = [(''y'', [(''dlls'', PNone)])]\<rparr>"

definition stale_file :: bytes where
  "stale_file = ''a'' @ [LF] @ ''b'' @ [LF] @ ''c'' @ [LF] @ ''d'' @ [LF]
       @ ''# checksum: 00'' @ [LF] @ ''---'' @ [LF] @ ''x'' @ [LF]"

definition good_file :: bytes where
  "good_file = ''a'' @ [LF] @ ''b'' @ [LF] @ ''c'' @ [LF] @ ''d'' @ [LF]
       @ ''# checksum: 0f'' @ [LF] @ ''---'' @ [LF] @ ''x'' @ [LF]"

definition crlf_file :: bytes where
  "crlf_file = ''a'' @ [CR, LF] @ ''b'' @ [LF] @ ''c'' @ [LF] @ ''d'' @ [LF]
       @ ''# checksum: 0f'' @ [LF] @ ''---'' @ [LF] @ ''x'' @ [LF]"

definition const_hash :: "bytes \<Rightarrow> string" where
  "const_hash b = ''0f''"

definition nosep_file :: bytes where
  "nosep_file = ''a'' @ [LF] @ ''b'' @ [LF] @ ''c'' @ [LF] @ ''d'' @ [LF]
       @ ''# checksum: 00'' @ [LF] @ ''x'' @ [LF]"

definition overlap_file :: "bytes \<Rightarrow> bytes" where
  "overlap_file tail = ''x'' @ [LF] @ ''---'' @ [LF] @ ''---'' @ [LF] @ tail"

definition stale_crlf_file :: bytes where
  "stale_crlf_file = ''a'' @ [CR, LF] @ ''b'' @ [LF] @ ''c'' @ [LF] @ ''d'' @ [LF]
       @ ''# checksum: 00'' @ [LF] @ ''---'' @ [LF] @ ''x'' @ [LF]"

definition example_env :: env where
  "example_env =
     \<lparr>get_data = (\<lambda>pkg fn.
         if pkg = ''nuitka.plugins.commercial'' then Inr None
         else if fn = ''standard.nuitka-package.config.yml'' then Inr (Some ''s'')
         else if fn = ''stdlib2.nuitka-package.config.yml'' then Inr (Some ''2'')
         else if fn = ''stdlib3.nuitka-package.config.yml'' then Inr (Some ''3'')
         else if fn = ''nosep.yml'' then Inr (Some nosep_file)
         else if fn = ''stale.yml'' then Inr (Some stale_file)
         else if fn = ''good.yml'' then Inr (Some good_file)
         else if fn = ''nokey.yml'' then Inr (Some ''k'')
         else Inr None),
      parseYaml = (\<lambda>b.
         if b = ''s''
         then Inr ((\<lambda>a. PNone)(0 := PDict [(''module-name'', PStr ''a''), (''dlls'', PNone)]),
                   DataList [0])
         else if b = ''2''
         then Inr ((\<lambda>a. PNone)(0 := PDict [(''module-name'', PStr ''b'')]), DataList [0])
         else if b = ''k''
         then Inr ((\<lambda>a. PNone)(0 := PDict [(''dlls'', PNone)]), DataList [0])
         else Inr ((\<lambda>a. PNone), DataList [])),
      getStringHash = const_hash,
      checkModuleName = (\<lambda>v. True),
      str_object = example_text,
      getUserProvidedYamlFiles = [],
      files = (\<lambda>n. None)\<rparr>"

section \<open>Properties\<close>

subsection \<open>Lookup\<close>

text \<open>
  C2. \<open>get(m, s)\<close> returns the empty tuple when \<open>m\<close> is not a key of the document
  or \<open>s\<close> is not a key of the entry of \<open>m\<close>; it returns the one-element tuple of
  the payload when the payload is a mapping, and the payload itself otherwise.
\<close>

theorem get_contract:
  "(od_get (data d) m = None \<longrightarrow> PackageConfigYaml_get d m s = PTuple [])
   \<and> (\<forall>entry. od_get (data d) m = Some entry \<and> od_get entry s = None
          \<longrightarrow> PackageConfigYaml_get d m s = PTuple [])
   \<and> (\<forall>entry p. od_get (data d) m = Some entry \<and> od_get entry s = Some (PDict p)
          \<longrightarrow> PackageConfigYaml_get d m s = PTuple [PDict p])
   \<and> (\<forall>entry v. od_get (data d) m = Some entry \<and> od_get entry s = Some v
            \<and> (\<forall>p. v \<noteq> PDict p)
          \<longrightarrow> PackageConfigYaml_get d m s = v)"
  by (auto simp: PackageConfigYaml_get_def split: pyval.splits)

theorem get_contract_witness:
  "od_get (data example_doc) ''zz'' = None
   \<and> PackageConfigYaml_get example_doc ''zz'' ''dlls'' = PTuple []
   \<and> PackageConfigYaml_get example_doc ''a.b'' ''anti-bloat'' = PTuple []
   \<and> PackageConfigYaml_get example_doc ''a.b'' ''data-files''
       = PTuple [PDict [(''dirs'', PList [PStr ''x''])]]
   \<and> PackageConfigYaml_get example_doc ''a.b'' ''dlls''
       = PList [PDict [(''from_filenames'', PNone)]]"
  using get_contract [of example_doc "''zz''" "''dlls''"]
    get_contract [of example_doc "''a.b''" "''anti-bloat''"]
    get_contract [of example_doc "''a.b''" "''data-files''"]
    get_contract [of example_doc "''a.b''" "''dlls''"]
  by (simp add: example_doc_def od_get_def)

subsection \<open>The checksum\<close>

lemma contains_sublist: "contains sep s = sublist sep s"
  by (induction s) (auto simp: sublist_Cons_right)

lemma prefix_append_butlast:
  assumes "sep \<noteq> []" "a \<noteq> []" "prefix sep (a @ sep @ r)"
  shows "prefix sep (a @ butlast sep)"
proof -
  have len: "length sep \<le> length (a @ butlast sep)"
    using assms(1,2) by (cases a) auto
  have "a @ sep @ r = (a @ butlast sep) @ (last sep # r)"
    using assms(1) by simp
  then have "prefix (a @ butlast sep) (a @ sep @ r)"
    by (simp only: prefixI)
  then show ?thesis
    using prefix_length_prefix [OF assms(3) _ len] by simp
qed

text \<open>
  The leftmost occurrence of the separator in \<open>a @ sep @ r\<close> is the one written out
  when the separator does not occur in \<open>a\<close> followed by all but the last byte of the
  separator.
\<close>

lemma find_sep_first:
  "sep \<noteq> [] \<Longrightarrow> \<not> sublist sep (a @ butlast sep) \<Longrightarrow> find_sep sep (a @ sep @ r) = Some (a, r)"
proof (induction a)
  case Nil
  then show ?case by (cases sep) auto
next
  case (Cons x a)
  have np: "\<not> prefix sep (x # a @ sep @ r)"
  proof
    assume "prefix sep (x # a @ sep @ r)"
    then have "prefix sep ((x # a) @ butlast sep)"
      using prefix_append_butlast [of sep "x # a" r] Cons.prems(1) by simp
    then show False using Cons.prems(2) by (simp add: sublist_Cons_right)
  qed
  have "\<not> sublist sep (a @ butlast sep)"
    using Cons.prems(2) by (simp add: sublist_Cons_right)
  then show ?case using Cons.IH Cons.prems(1) np by simp
qed

text \<open>
  C6. For a content in which the separator \<open>\n---\n\<close> does not occur, the checksum
  computation raises the \<open>ValueError\<close> of line 164 and returns no digest.
\<close>

theorem checksum_missing_separator:
  "\<not> sublist header_sep d \<Longrightarrow>
     calculateYamlFileChecksum h d = Inl (ValueError ''Malformed yaml data without --- header'')"
  by (simp add: calculateYamlFileChecksum_def contains_sublist)

theorem checksum_missing_separator_witness:
  "\<not> sublist header_sep ''# head'' \<and>
   calculateYamlFileChecksum (\<lambda>b. ''0f'') ''# head''
     = Inl (ValueError ''Malformed yaml data without --- header'')"
proof -
  have h: "\<not> sublist header_sep ''# head''"
    by (simp add: contains_sublist [symmetric] header_sep_def LF_def)
  show ?thesis
    using h checksum_missing_separator [OF h, of "\<lambda>b. ''0f''"] by simp
qed

text \<open>
  C3, as amended. Let the content be \<open>a\<close>, the separator, \<open>b\<close>, the separator
  and \<open>c\<close>, where the two separators written out are the first one of the content
  and the first one behind it, so that they do not overlap. Then the digest is the
  encoded hash of \<open>b\<close>, whatever \<open>a\<close> and \<open>c\<close> are.
\<close>

theorem checksum_covers_body:
  assumes "\<not> sublist header_sep (a @ butlast header_sep)"
      and "\<not> sublist header_sep (b @ butlast header_sep)"
  shows "calculateYamlFileChecksum h (a @ header_sep @ b @ header_sep @ c)
           = Inr (encode_utf8 (h b))"
proof -
  have ne: "header_sep \<noteq> []" by (simp add: header_sep_def)
  have c: "contains header_sep (a @ header_sep @ b @ header_sep @ c)"
    by (simp add: contains_sublist)
  have "split_max header_sep 2 (a @ header_sep @ b @ header_sep @ c) = [a, b, c]"
    using find_sep_first [OF ne assms(1)] find_sep_first [OF ne assms(2)]
    by (simp add: numeral_2_eq_2)
  then show ?thesis using c by (simp add: calculateYamlFileChecksum_def py_index_def)
qed

theorem checksum_covers_body_witness:
  "\<not> sublist header_sep (''# x'' @ butlast header_sep)
   \<and> \<not> sublist header_sep (''- a: 1'' @ butlast header_sep)
   \<and> calculateYamlFileChecksum (\<lambda>b. b) (''# x'' @ header_sep @ ''- a: 1'' @ header_sep @ ''tail'')
       = Inr ''- a: 1''"
proof -
  have h1: "\<not> sublist header_sep (''# x'' @ butlast header_sep)"
    by (simp add: contains_sublist [symmetric] header_sep_def LF_def)
  have h2: "\<not> sublist header_sep (''- a: 1'' @ butlast header_sep)"
    by (simp add: contains_sublist [symmetric] header_sep_def LF_def)
  show ?thesis
    using h1 h2 checksum_covers_body [OF h1 h2, of "\<lambda>b. b" "''tail''"]
    by (simp add: encode_utf8_def)
qed

text \<open>
  C3 as stated fails when the first two occurrences of the separator share a line end,
  as in two \<open>---\<close> lines one after the other: \<open>split\<close> takes the second
  occurrence for content, and the digest covers everything behind the first one. The two
  contents here are the same up to the end of the second occurrence, and their digests
  differ.
\<close>

theorem checksum_overlap_counterexample:
  "take 5 (drop 1 (overlap_file ''y'')) = header_sep
   \<and> take 5 (drop 5 (overlap_file ''y'')) = header_sep
   \<and> take 10 (overlap_file ''y'') = take 10 (overlap_file ''z'')
   \<and> calculateYamlFileChecksum (\<lambda>b. b) (overlap_file ''y'') = Inr (''---'' @ [LF] @ ''y'')
   \<and> calculateYamlFileChecksum (\<lambda>b. b) (overlap_file ''z'') = Inr (''---'' @ [LF] @ ''z'')"
  by (simp add: overlap_file_def calculateYamlFileChecksum_def header_sep_def LF_def
        py_index_def encode_utf8_def numeral_2_eq_2)

text \<open>
  C10. When line 4 starts with \<open># checksum: \<close> and has fewer than three
  whitespace-separated tokens, \<open>getYamlFileChecksum\<close> raises \<open>IndexError\<close>. It
  returns \<open>None\<close> exactly when there are fewer than five lines or line 4 does not start
  with that prefix.
\<close>

theorem extract_checksum_index_error:
  "(4 < length (splitlines d) \<and> startswith (splitlines d ! 4) ''# checksum: ''
      \<and> length (split_ws (splitlines d ! 4)) < 3
     \<longrightarrow> getYamlFileChecksum d = Inl IndexError)
   \<and> (getYamlFileChecksum d = Inr None
        \<longleftrightarrow> \<not> (4 < length (splitlines d) \<and> startswith (splitlines d ! 4) ''# checksum: ''))"
  by (auto simp: getYamlFileChecksum_def Let_def py_index_def split: sum.splits)

theorem extract_checksum_index_error_witness:
  "getYamlFileChecksum
     (''a'' @ [LF] @ ''b'' @ [CR, LF] @ ''c'' @ [LF] @ ''d'' @ [LF] @ ''# checksum: '' @ [LF] @ ''e'')
     = Inl IndexError
   \<and> getYamlFileChecksum (''a'' @ [LF] @ ''# checksum: 0f'') = Inr None"
  using extract_checksum_index_error
      [of "''a'' @ [LF] @ ''b'' @ [CR, LF] @ ''c'' @ [LF] @ ''d'' @ [LF] @ ''# checksum: '' @ [LF] @ ''e''"]
    extract_checksum_index_error [of "''a'' @ [LF] @ ''# checksum: 0f''"]
  by (simp add: LF_def CR_def startswith_def split_ws_def is_space_def)

subsection \<open>Construction and merging of documents\<close>

lemma od_set_fresh: "\<not> od_contains d k \<Longrightarrow> od_set d k v = d @ [(k, v)]"
  by (induction d) (auto simp: od_contains_def)

lemma update_loop_ok:
  "distinct (map fst other) \<Longrightarrow> set (map fst d) \<inter> set (map fst other) = {}
     \<Longrightarrow> update_loop d other = (None, d @ other)"
proof (induction other arbitrary: d)
  case Nil
  then show ?case by simp
next
  case (Cons kv other)
  obtain k v where kv: "kv = (k, v)" by (cases kv)
  have fresh: "\<not> od_contains d k" using Cons.prems(2) kv by (auto simp: od_contains_def)
  have "update_loop (d @ [(k, v)]) other = (None, (d @ [(k, v)]) @ other)"
    using Cons.prems kv by (intro Cons.IH) auto
  then show ?case using fresh kv by (simp add: od_set_fresh)
qed

lemma update_loop_fail:
  "\<not> (distinct (map fst other) \<and> set (map fst d) \<inter> set (map fst other) = {})
     \<Longrightarrow> \<exists>k. fst (update_loop d other) = Some (AssertionError k) \<and> k \<in> set (map fst other)"
proof (induction other arbitrary: d)
  case Nil
  then show ?case by simp
next
  case (Cons kv other)
  obtain k v where kv: "kv = (k, v)" by (cases kv)
  show ?case
  proof (cases "od_contains d k")
    case True
    then show ?thesis using kv by simp
  next
    case False
    then have "\<not> (distinct (map fst other)
                 \<and> set (map fst (d @ [(k, v)])) \<inter> set (map fst other) = {})"
      using Cons.prems kv by (auto simp: od_contains_def)
    from Cons.IH [OF this] show ?thesis
      using False kv by (auto simp: od_set_fresh)
  qed
qed

lemma popped_no_name: "map_of (filter (\<lambda>kv. fst kv \<noteq> k) item) k = None"
  by (induction item) auto

text \<open>What an accepted record was, and what accepting it changes.\<close>

lemma init_item_Inr:
  assumes "init_item chk conv n objs d a = Inr (objs', d')"
  shows "\<exists>item m. objs a = PDict item \<and> map_of item ''module-name'' = Some (PStr m)
          \<and> \<not> od_contains d m
          \<and> d' = d @ [(m, filter (\<lambda>kv. fst kv \<noteq> ''module-name'') item)]
          \<and> objs' = objs(a := PDict (filter (\<lambda>kv. fst kv \<noteq> ''module-name'') item))"
  using assms
  by (auto simp: init_item_def od_pop_def od_set_fresh
           split: pyval.splits option.splits if_splits sum.splits bool.splits)

lemma init_loop_Inr:
  "init_loop chk conv n objs d refs = Inr (objs', d') \<Longrightarrow>
     distinct refs
     \<and> (\<exists>ms. map (\<lambda>a. module_name_of (objs a)) refs = map (\<lambda>m. Some (PStr m)) ms
            \<and> distinct ms \<and> set ms \<inter> set (map fst d) = {}
            \<and> map fst d' = map fst d @ ms)
     \<and> (\<forall>b. b \<notin> set refs \<longrightarrow> objs' b = objs b)
     \<and> (\<forall>b\<in>set refs. \<exists>item. objs' b = PDict item \<and> map_of item ''module-name'' = None)"
proof (induction refs arbitrary: objs d)
  case Nil
  then show ?case by simp
next
  case (Cons a refs)
  from Cons.prems obtain objs1 d1 where s1: "init_item chk conv n objs d a = Inr (objs1, d1)"
      and rest: "init_loop chk conv n objs1 d1 refs = Inr (objs', d')"
    by (auto split: sum.splits)
  from init_item_Inr [OF s1] obtain item m where it: "objs a = PDict item"
      "map_of item ''module-name'' = Some (PStr m)" "\<not> od_contains d m"
      "d1 = d @ [(m, filter (\<lambda>kv. fst kv \<noteq> ''module-name'') item)]"
      "objs1 = objs(a := PDict (filter (\<lambda>kv. fst kv \<noteq> ''module-name'') item))"
    by blast
  from Cons.IH [OF rest] obtain ms where ih: "distinct refs"
      "map (\<lambda>a. module_name_of (objs1 a)) refs = map (\<lambda>m. Some (PStr m)) ms" "distinct ms"
      "set ms \<inter> set (map fst d1) = {}" "map fst d' = map fst d1 @ ms"
      "\<forall>b. b \<notin> set refs \<longrightarrow> objs' b = objs1 b"
      "\<forall>b\<in>set refs. \<exists>item. objs' b = PDict item \<and> map_of item ''module-name'' = None"
    by blast
  have gone: "module_name_of (objs1 a) = None"
    using it(5) by (simp add: module_name_of_def popped_no_name)
  have fresh: "a \<notin> set refs"
  proof
    assume "a \<in> set refs"
    then have "module_name_of (objs1 a) \<in> set (map (\<lambda>a. module_name_of (objs1 a)) refs)"
      by simp
    then show False unfolding ih(2) using gone by auto
  qed
  have same: "map (\<lambda>a. module_name_of (objs1 a)) refs = map (\<lambda>a. module_name_of (objs a)) refs"
    using fresh it(5) by (intro map_cong) auto
  have 1: "distinct (a # refs)" using fresh ih(1) by simp
  have 2: "map (\<lambda>a. module_name_of (objs a)) (a # refs) = map (\<lambda>m. Some (PStr m)) (m # ms)"
    using it(1,2) ih(2) same by (simp add: module_name_of_def)
  have 3: "distinct (m # ms)" using ih(3,4) it(4) by auto
  have 4: "set (m # ms) \<inter> set (map fst d) = {}"
    using ih(4) it(3,4) by (auto simp: od_contains_def)
  have 5: "map fst d' = map fst d @ (m # ms)" using ih(5) it(4) by simp
  have 6: "\<forall>b. b \<notin> set (a # refs) \<longrightarrow> objs' b = objs b"
    using ih(6) it(5) by simp
  have "\<exists>item. objs1 a = PDict item \<and> map_of item ''module-name'' = None"
    using it(5) by (simp add: popped_no_name)
  then have 7: "\<forall>b\<in>set (a # refs). \<exists>item. objs' b = PDict item
                  \<and> map_of item ''module-name'' = None"
    using ih(6,7) fresh by auto
  from 1 2 3 4 5 6 7 show ?case by blast
qed

lemma init_loop_append:
  "init_loop chk conv n objs d (xs @ ys) =
     (case init_loop chk conv n objs d xs of
        Inl e \<Rightarrow> Inl e
      | Inr (objs', d') \<Rightarrow> init_loop chk conv n objs' d' ys)"
  by (induction xs arbitrary: objs d) (auto split: sum.splits)

lemma init_loop_duplicate:
  assumes "i < j" "j < length refs"
      and "module_name_of (objs (refs ! i)) = Some v"
      and "module_name_of (objs (refs ! j)) = Some v"
  shows "\<exists>e. init_loop chk conv n objs d refs = Inl e"
proof (cases "init_loop chk conv n objs d refs")
  case (Inl e)
  then show ?thesis by blast
next
  case (Inr r)
  obtain objs' d' where r: "r = (objs', d')" by (cases r)
  from init_loop_Inr [OF Inr [unfolded r]] obtain ms where ms:
      "map (\<lambda>a. module_name_of (objs a)) refs = map (\<lambda>m. Some (PStr m)) ms" "distinct ms"
    by blast
  have len: "length ms = length refs" using ms(1) by (metis length_map)
  have "Some (PStr (ms ! i)) = module_name_of (objs (refs ! i))"
    using ms(1) len assms(1,2) by (metis nth_map order_less_trans)
  moreover have "Some (PStr (ms ! j)) = module_name_of (objs (refs ! j))"
    using ms(1) len assms(2) by (metis nth_map)
  ultimately have "PStr (ms ! i) = PStr (ms ! j)" using assms(3,4) by simp
  then have "ms ! i = ms ! j" by simp
  then have False using ms(2) len assms(1,2) by (simp add: nth_eq_iff_index_eq)
  then show ?thesis ..
qed


text \<open>
  C1. A list in which two places hold the same module name is not built into a document:
  the constructor ends with an error. After records that were accepted, a record that is
  a new object, whose name passes the other checks and is a key already, ends the
  construction with the \<open>Duplicate module-name\<close> exit; a record that is an object
  accepted before has lost its \<open>module-name\<close>, and ends it with \<open>KeyError\<close>.
  \<open>update\<close> ends with an \<open>AssertionError\<close> when the two documents share a module
  name. When the keys of the other document are distinct and none of them is a key of
  this one, \<open>update\<close> succeeds and the entries afterwards are those of both, this
  document's first.
\<close>

theorem duplicate_module_name_aborts:
  "(i < j \<and> j < length refs
      \<and> module_name_of (objs (refs ! i)) = Some v
      \<and> module_name_of (objs (refs ! j)) = Some v
     \<longrightarrow> (\<exists>e. PackageConfigYaml_init chk conv n (objs, DataList refs) = Inl e))
   \<and> (init_loop chk conv n objs [] pre = Inr (objs1, d) \<and> od_contains d m \<and> a \<notin> set pre
        \<and> module_name_of (objs a) = Some (PStr m)
        \<and> m \<noteq> [] \<and> CHR ''/'' \<notin> set m \<and> chk (PStr m)
     \<longrightarrow> PackageConfigYaml_init chk conv n (objs, DataList (pre @ a # post))
           = Inl (SysExit (msg_duplicate m)))
   \<and> (init_loop chk conv n objs [] pre = Inr (objs1, d) \<and> a \<in> set pre
     \<longrightarrow> PackageConfigYaml_init chk conv n (objs, DataList (pre @ a # post))
           = Inl (KeyError ''module-name''))
   \<and> (od_contains (data self) k \<and> od_contains (data other) k
     \<longrightarrow> (\<exists>k'. fst (PackageConfigYaml_update self other) = Some (AssertionError k')))
   \<and> (distinct (map fst (data other))
        \<and> set (map fst (data self)) \<inter> set (map fst (data other)) = {}
     \<longrightarrow> PackageConfigYaml_update self other
           = (None, self\<lparr>data := data self @ data other\<rparr>)
         \<and> set (data (snd (PackageConfigYaml_update self other)))
           = set (data self) \<union> set (data other))"
proof (intro conjI impI)
  assume a: "i < j \<and> j < length refs
      \<and> module_name_of (objs (refs ! i)) = Some v
      \<and> module_name_of (objs (refs ! j)) = Some v"
  then obtain e where "init_loop chk conv n objs [] refs = Inl e"
    using init_loop_duplicate [of i j refs objs v chk conv n "[]"] by blast
  then show "\<exists>e. PackageConfigYaml_init chk conv n (objs, DataList refs) = Inl e" by simp
next
  assume a: "init_loop chk conv n objs [] pre = Inr (objs1, d) \<and> od_contains d m \<and> a \<notin> set pre
        \<and> module_name_of (objs a) = Some (PStr m)
        \<and> m \<noteq> [] \<and> CHR ''/'' \<notin> set m \<and> chk (PStr m)"
  then have pre: "init_loop chk conv n objs [] pre = Inr (objs1, d)" by simp
  have "objs1 a = objs a" using init_loop_Inr [OF pre] a by blast
  then obtain item where "objs1 a = PDict item" "map_of item ''module-name'' = Some (PStr m)"
    using a by (auto simp: module_name_of_def split: pyval.splits)
  then have "init_item chk conv n objs1 d a = Inl (SysExit (msg_duplicate m))"
    using a by (simp add: init_item_def od_pop_def)
  then show "PackageConfigYaml_init chk conv n (objs, DataList (pre @ a # post))
           = Inl (SysExit (msg_duplicate m))"
    using pre by (simp add: init_loop_append)
next
  assume a: "init_loop chk conv n objs [] pre = Inr (objs1, d) \<and> a \<in> set pre"
  then have pre: "init_loop chk conv n objs [] pre = Inr (objs1, d)" by simp
  obtain item where "objs1 a = PDict item" "map_of item ''module-name'' = None"
    using init_loop_Inr [OF pre] a by blast
  then have "init_item chk conv n objs1 d a = Inl (KeyError ''module-name'')"
    by (simp add: init_item_def od_pop_def)
  then show "PackageConfigYaml_init chk conv n (objs, DataList (pre @ a # post))
           = Inl (KeyError ''module-name'')"
    using pre by (simp add: init_loop_append)
next
  assume a: "od_contains (data self) k \<and> od_contains (data other) k"
  then have "\<not> (distinct (map fst (data other))
               \<and> set (map fst (data self)) \<inter> set (map fst (data other)) = {})"
    by (auto simp: od_contains_def)
  from update_loop_fail [OF this]
  show "\<exists>k'. fst (PackageConfigYaml_update self other) = Some (AssertionError k')"
    by (auto simp: PackageConfigYaml_update_def split: prod.splits)
next
  assume a: "distinct (map fst (data other))
        \<and> set (map fst (data self)) \<inter> set (map fst (data other)) = {}"
  then have u: "update_loop (data self) (data other) = (None, data self @ data other)"
    using update_loop_ok by blast
  then show "PackageConfigYaml_update self other
           = (None, self\<lparr>data := data self @ data other\<rparr>)"
    by (simp add: PackageConfigYaml_update_def)
  show "set (data (snd (PackageConfigYaml_update self other)))
           = set (data self) \<union> set (data other)"
    using u by (simp add: PackageConfigYaml_update_def)
qed




lemma example_store_at:
  "example_store 0 = PDict [(''module-name'', PStr ''foo.bar'')]"
  "example_store 1 = PDict [(''module-name'', PStr ''foo.bar''), (''dlls'', PNone)]"
  "example_store 2 = PDict [(''module-name'', PStr [])]"
  "example_store 3 = PDict [(''module-name'', PStr ''a/b'')]"
  "example_store 4 = PDict [(''module-name'', PStr ''x..y'')]"
  "example_store 5 = PDict [(''module-name'', PStr ''b''), (''dlls'', PNone)]"
  "example_store 6 = PDict [(''dlls'', PNone)]"
  "example_store 7 = PDict [(''module-name'', PList [PStr ''/''])]"
  "example_store 8 = PDict [(''module-name'', PInt 5)]"
  "example_store 9 = PDict [(''module-name'', PList [PStr ''q''])]"
  "example_store (Suc 0) = PDict [(''module-name'', PStr ''foo.bar''), (''dlls'', PNone)]"
  by (simp_all add: example_store_def)

lemma example_first_record:
  "init_loop example_check example_text ''t.yml'' example_store [] [0]
     = Inr (example_store(0 := PDict []), [(''foo.bar'', [])])"
  by (simp add: init_item_def example_store_at od_pop_def od_contains_def example_check_def)

theorem duplicate_module_name_aborts_witness:
  "(\<exists>e. PackageConfigYaml_init example_check example_text ''t.yml''
           (example_store, DataList [0, 1]) = Inl e)
   \<and> PackageConfigYaml_init example_check example_text ''t.yml''
         (example_store, DataList [0, 1])
       = Inl (SysExit (msg_duplicate ''foo.bar''))
   \<and> PackageConfigYaml_init example_check example_text ''t.yml''
         (example_store, DataList [0, 0])
       = Inl (KeyError ''module-name'')
   \<and> (\<exists>k'. fst (PackageConfigYaml_update doc_x doc_x2) = Some (AssertionError k'))
   \<and> PackageConfigYaml_update doc_x doc_y
       = (None, doc_x\<lparr>data := data doc_x @ data doc_y\<rparr>)"
proof -
  note T = duplicate_module_name_aborts
      [where i = 0 and j = 1 and refs = "[0, 1]" and objs = example_store
         and v = "PStr ''foo.bar''" and chk = example_check and conv = example_text
         and n = "''t.yml''" and pre = "[0]" and ?objs1.0 = "example_store(0 := PDict [])"
         and d = "[(''foo.bar'', [])]" and m = "''foo.bar''" and post = "[]"
         and self = doc_x and k = "''x''"]
  have a: "(0::nat) < 1 \<and> 1 < length [0::nat, 1]
      \<and> module_name_of (example_store ([0, 1] ! 0)) = Some (PStr ''foo.bar'')
      \<and> module_name_of (example_store ([0, 1] ! 1)) = Some (PStr ''foo.bar'')"
    by (simp add: example_store_at module_name_of_def)
  have b: "init_loop example_check example_text ''t.yml'' example_store [] [0]
             = Inr (example_store(0 := PDict []), [(''foo.bar'', [])])
        \<and> od_contains [(''foo.bar'', [])] ''foo.bar'' \<and> (1::nat) \<notin> set [0]
        \<and> module_name_of (example_store 1) = Some (PStr ''foo.bar'')
        \<and> ''foo.bar'' \<noteq> [] \<and> CHR ''/'' \<notin> set ''foo.bar'' \<and> example_check (PStr ''foo.bar'')"
    using example_first_record
    by (simp add: od_contains_def example_store_at module_name_of_def example_check_def)
  have b': "init_loop example_check example_text ''t.yml'' example_store [] [0]
             = Inr (example_store(0 := PDict []), [(''foo.bar'', [])])
        \<and> (0::nat) \<in> set [0]"
    using example_first_record by simp
  have c: "od_contains (data doc_x) ''x'' \<and> od_contains (data doc_x2) ''x''"
    by (simp add: doc_x_def doc_x2_def od_contains_def)
  have d: "distinct (map fst (data doc_y))
        \<and> set (map fst (data doc_x)) \<inter> set (map fst (data doc_y)) = {}"
    by (simp add: doc_x_def doc_y_def)
  have r: "[0] @ 1 # [] = [0::nat, 1]" "[0] @ 0 # [] = [0::nat, 0]" by simp_all
  from T [of 1 doc_x2] a
  have 1: "\<exists>e. PackageConfigYaml_init example_check example_text ''t.yml''
           (example_store, DataList [0, 1]) = Inl e"
    by blast
  from T [of 1 doc_x2] b
  have 2: "PackageConfigYaml_init example_check example_text ''t.yml''
         (example_store, DataList [0, 1])
       = Inl (SysExit (msg_duplicate ''foo.bar''))"
    unfolding r by blast
  from T [of 0 doc_x2] b'
  have 3: "PackageConfigYaml_init example_check example_text ''t.yml''
         (example_store, DataList [0, 0])
       = Inl (KeyError ''module-name'')"
    unfolding r by blast
  from T [of 1 doc_x2] c
  have 4: "\<exists>k'. fst (PackageConfigYaml_update doc_x doc_x2) = Some (AssertionError k')"
    by blast
  from T [of 1 doc_y] d
  have 5: "PackageConfigYaml_update doc_x doc_y
       = (None, doc_x\<lparr>data := data doc_x @ data doc_y\<rparr>)"
    by blast
  from 1 2 3 4 5 show ?thesis by blast
qed




subsection \<open>The maintenance tool\<close>


lemma splitlines_line:
  "LF \<notin> set l \<Longrightarrow> CR \<notin> set l \<Longrightarrow> splitlines (l @ LF # rest) = l # splitlines rest"
  by (induction l) auto

lemma splitlines_join:
  "ls \<noteq> [] \<Longrightarrow> \<forall>l\<in>set ls. LF \<notin> set l \<and> CR \<notin> set l
     \<Longrightarrow> splitlines (join [LF] ls @ [LF]) = ls"
proof (induction ls)
  case Nil
  then show ?case by simp
next
  case (Cons l ls)
  show ?case
  proof (cases ls)
    case Nil
    then show ?thesis using Cons.prems splitlines_line [of l "[]"] by simp
  next
    case (Cons l' ls')
    then have "splitlines (join [LF] ls @ [LF]) = ls" using Cons.IH Cons.prems by simp
    then show ?thesis
      using Cons Cons.prems splitlines_line [of l "join [LF] ls @ [LF]"] by simp
  qed
qed

lemma split_ws_aux_token:
  "\<forall>ch\<in>set c. \<not> is_space ch \<Longrightarrow> split_ws_aux cur c = (if cur @ c = [] then [] else [cur @ c])"
  by (induction c arbitrary: cur) auto


lemma split_ws_aux_word:
  "\<forall>ch\<in>set w. \<not> is_space ch \<Longrightarrow> is_space s \<Longrightarrow>
     split_ws_aux cur (w @ s # rest)
       = (if cur @ w = [] then split_ws_aux [] rest else (cur @ w) # split_ws_aux [] rest)"
  by (induction w arbitrary: cur) auto

lemma split_ws_marker:
  assumes "c \<noteq> []" "\<forall>ch\<in>set c. \<not> is_space ch"
  shows "split_ws (''# checksum: '' @ c) = [''#'', ''checksum:'', c]"
proof -
  have sp: "is_space CHR '' ''" by (simp add: is_space_def)
  have n1: "\<forall>ch\<in>set ''#''. \<not> is_space ch" by (simp add: is_space_def)
  have n2: "\<forall>ch\<in>set ''checksum:''. \<not> is_space ch" by (simp add: is_space_def)
  have a: "split_ws_aux [] c = [c]"
    using assms by (simp add: split_ws_aux_token)
  have b: "split_ws_aux [] (''checksum:'' @ CHR '' '' # c) = [''checksum:'', c]"
    using a by (simp only: split_ws_aux_word [OF n2 sp] append_Nil) simp
  have "split_ws_aux [] (''#'' @ CHR '' '' # (''checksum:'' @ CHR '' '' # c))
          = [''#'', ''checksum:'', c]"
    using b by (simp only: split_ws_aux_word [OF n1 sp] append_Nil) simp
  then show ?thesis by (simp add: split_ws_def)
qed


lemma splitlines_no_eol: "l \<in> set (splitlines s) \<Longrightarrow> LF \<notin> set l \<and> CR \<notin> set l"
proof (induction s arbitrary: l rule: splitlines.induct)
  case 1
  then show ?case by simp
next
  case (2 c cs)
  show ?case
  proof (cases "c = LF")
    case True
    then show ?thesis using 2 by auto
  next
    case nlf: False
    show ?thesis
    proof (cases "c = CR")
      case True
      then show ?thesis using 2 nlf by (cases cs) (auto split: if_splits)
    next
      case False
      then show ?thesis using 2 nlf by (cases "splitlines cs") auto
    qed
  qed
qed


lemma splitlines_rewritten:
  assumes "5 \<le> length (splitlines old)" "LF \<notin> set c" "CR \<notin> set c"
  shows "splitlines (join [LF] ((splitlines old)[4 := ''# checksum: '' @ c]) @ [LF])
           = (splitlines old)[4 := ''# checksum: '' @ c]"
proof (rule splitlines_join)
  show "(splitlines old)[4 := ''# checksum: '' @ c] \<noteq> []" using assms(1) by auto
  have m: "LF \<notin> set (''# checksum: '' @ c) \<and> CR \<notin> set (''# checksum: '' @ c)"
    using assms(2,3) by (simp add: LF_def CR_def)
  show "\<forall>l\<in>set ((splitlines old)[4 := ''# checksum: '' @ c]). LF \<notin> set l \<and> CR \<notin> set l"
  proof
    fix l assume "l \<in> set ((splitlines old)[4 := ''# checksum: '' @ c])"
    then have "l \<in> insert (''# checksum: '' @ c) (set (splitlines old))"
      using set_update_subset_insert by fast
    then show "LF \<notin> set l \<and> CR \<notin> set l"
      using m splitlines_no_eol by blast
  qed
qed

lemma stale_differs:
  assumes len: "5 \<le> length (splitlines old)"
      and tok: "c \<noteq> []" "\<forall>ch\<in>set c. \<not> is_space ch"
      and stale: "getYamlFileChecksum old \<noteq> Inr (Some c)"
  shows "join [LF] ((splitlines old)[4 := ''# checksum: '' @ c]) @ [LF] \<noteq> old"
proof
  assume eq: "join [LF] ((splitlines old)[4 := ''# checksum: '' @ c]) @ [LF] = old"
  have "LF \<notin> set c" "CR \<notin> set c" using tok(2) by (auto simp: is_space_def LF_def CR_def)
  from splitlines_rewritten [OF len this]
  have "splitlines old = (splitlines old)[4 := ''# checksum: '' @ c]"
    unfolding eq by simp
  then have "splitlines old ! 4 = (splitlines old)[4 := ''# checksum: '' @ c] ! 4" by simp
  then have l4: "splitlines old ! 4 = ''# checksum: '' @ c" using len by simp
  have "getYamlFileChecksum old = Inr (Some c)"
    using len l4 split_ws_marker [OF tok]
    by (simp add: getYamlFileChecksum_def Let_def startswith_def py_index_def)
  with stale show False by simp
qed

lemma join_concat:
  "ls \<noteq> [] \<Longrightarrow> join [LF] ls @ [LF] = concat (map (\<lambda>l. l @ [LF]) ls)"
proof (induction ls)
  case Nil
  then show ?case by simp
next
  case (Cons l ls)
  then show ?case by (cases ls) auto
qed

lemma join_around_line:
  assumes "i < length ls"
  shows "join [LF] (ls[i := m]) @ [LF]
           = concat (map (\<lambda>l. l @ [LF]) (take i ls)) @ m
               @ LF # concat (map (\<lambda>l. l @ [LF]) (drop (Suc i) ls))"
proof -
  have "ls[i := m] = take i ls @ m # drop (Suc i) ls"
    using assms by (rule upd_conv_take_nth_drop)
  moreover have "ls[i := m] \<noteq> []" using assms by auto
  ultimately show ?thesis by (simp add: join_concat)
qed

text \<open>
  C8, as amended. Take a file of at least five lines whose line 4 starts with the marker.
  Without the separator in it the call ends with the \<open>ValueError\<close> of the checksum
  and the files stay as they are. When the digest is computed and is one token (not
  empty, no whitespace, as a hexadecimal digest is) and the stored checksum, as
  \<open>getYamlFileChecksum\<close> reads it, is not that digest: with \<open>update\<close> the file is
  written anew as its lines, line 4 replaced by the marker and the digest, each ended by
  \<open>\n\<close>, so that every other line keeps its content; for a file whose lines were all
  ended by \<open>\n\<close> the bytes before and behind line 4 are those of the old file. Without
  \<open>update\<close> the files stay as they are and the call ends with the fatal exit.
\<close>

theorem stale_checksum_rewrite:
  assumes fl: "fs filename = Some old"
      and len: "5 \<le> length (splitlines old)"
      and marker: "startswith (splitlines old ! 4) ''# checksum:''"
  shows "(\<not> sublist header_sep old \<longrightarrow>
            checkOrUpdateChecksum h fs filename update
              = (Some (ValueError ''Malformed yaml data without --- header''), fs, []))
       \<and> (\<forall>c. calculateYamlFileChecksum h old = Inr c
              \<and> c \<noteq> [] \<and> (\<forall>ch\<in>set c. \<not> is_space ch)
              \<and> getYamlFileChecksum old \<noteq> Inr (Some c) \<longrightarrow>
            checkOrUpdateChecksum h fs filename True
              = (None,
                 fs(filename \<mapsto> join [LF] ((splitlines old)[4 := ''# checksum: '' @ c]) @ [LF]),
                 [''OK, updated checksum.''])
            \<and> splitlines (join [LF] ((splitlines old)[4 := ''# checksum: '' @ c]) @ [LF])
                = (splitlines old)[4 := ''# checksum: '' @ c]
            \<and> (old = join [LF] (splitlines old) @ [LF] \<longrightarrow>
                  old = concat (map (\<lambda>l. l @ [LF]) (take 4 (splitlines old)))
                          @ splitlines old ! 4
                          @ LF # concat (map (\<lambda>l. l @ [LF]) (drop 5 (splitlines old)))
                  \<and> join [LF] ((splitlines old)[4 := ''# checksum: '' @ c]) @ [LF]
                      = concat (map (\<lambda>l. l @ [LF]) (take 4 (splitlines old)))
                          @ (''# checksum: '' @ c)
                          @ LF # concat (map (\<lambda>l. l @ [LF]) (drop 5 (splitlines old))))
            \<and> checkOrUpdateChecksum h fs filename False
                = (Some (SysExit
                     ''Error, checksum does not match, use --update or enable commit hook.''),
                   fs, []))"
proof (intro conjI impI allI)
  have g: "\<not> length (splitlines old) < 5" using len by simp
  {
    assume "\<not> sublist header_sep old"
    then have "calculateYamlFileChecksum h old
                 = Inl (ValueError ''Malformed yaml data without --- header'')"
      by (simp add: calculateYamlFileChecksum_def contains_sublist)
    then show "checkOrUpdateChecksum h fs filename update
              = (Some (ValueError ''Malformed yaml data without --- header''), fs, [])"
      using fl g marker by (simp add: checkOrUpdateChecksum_def getFileContents_def Let_def)
  }
  fix c
  assume a: "calculateYamlFileChecksum h old = Inr c
              \<and> c \<noteq> [] \<and> (\<forall>ch\<in>set c. \<not> is_space ch)
              \<and> getYamlFileChecksum old \<noteq> Inr (Some c)"
  then have calc: "calculateYamlFileChecksum h old = Inr c"
      and tok: "c \<noteq> []" "\<forall>ch\<in>set c. \<not> is_space ch"
      and stale: "getYamlFileChecksum old \<noteq> Inr (Some c)"
    by simp_all
  have ne: "join [LF] ((splitlines old)[4 := ''# checksum: '' @ c]) @ [LF] \<noteq> old"
    using stale_differs [OF len tok stale] .
  have eol: "LF \<notin> set c" "CR \<notin> set c"
    using tok(2) by (auto simp: is_space_def LF_def CR_def)
  show "checkOrUpdateChecksum h fs filename True
              = (None,
                 fs(filename \<mapsto> join [LF] ((splitlines old)[4 := ''# checksum: '' @ c]) @ [LF]),
                 [''OK, updated checksum.''])"
    using fl g marker calc ne
    by (simp add: checkOrUpdateChecksum_def getFileContents_def Let_def)
  show "checkOrUpdateChecksum h fs filename False
                = (Some (SysExit
                     ''Error, checksum does not match, use --update or enable commit hook.''),
                   fs, [])"
    using fl g marker calc ne
    by (simp add: checkOrUpdateChecksum_def getFileContents_def Let_def)
  show "splitlines (join [LF] ((splitlines old)[4 := ''# checksum: '' @ c]) @ [LF])
                = (splitlines old)[4 := ''# checksum: '' @ c]"
    using splitlines_rewritten [OF len eol] .
  have i: "4 < length (splitlines old)" using len by simp
  show "join [LF] ((splitlines old)[4 := ''# checksum: '' @ c]) @ [LF]
                      = concat (map (\<lambda>l. l @ [LF]) (take 4 (splitlines old)))
                          @ (''# checksum: '' @ c)
                          @ LF # concat (map (\<lambda>l. l @ [LF]) (drop 5 (splitlines old)))"
    using join_around_line [OF i] by (simp add: eval_nat_numeral)
  assume n: "old = join [LF] (splitlines old) @ [LF]"
  have "join [LF] ((splitlines old)[4 := splitlines old ! 4]) @ [LF]
          = concat (map (\<lambda>l. l @ [LF]) (take 4 (splitlines old)))
                          @ splitlines old ! 4
                          @ LF # concat (map (\<lambda>l. l @ [LF]) (drop 5 (splitlines old)))"
    using join_around_line [OF i, of "splitlines old ! 4"] by (simp add: eval_nat_numeral)
  then show "old = concat (map (\<lambda>l. l @ [LF]) (take 4 (splitlines old)))
                          @ splitlines old ! 4
                          @ LF # concat (map (\<lambda>l. l @ [LF]) (drop 5 (splitlines old)))"
    using n by simp
qed

text \<open>
  C9. Under the same conditions on the file, the call reports a valid checksum exactly
  when the whole content equals the lines, with line 4 replaced by the marker and the
  computed digest, joined by \<open>\n\<close> and ended by \<open>\n\<close>. Any other content, also
  one whose stored digest is the computed one, is rewritten as a whole with \<open>update\<close>
  and ends in the fatal exit without it.
\<close>

theorem whole_file_comparison:
  assumes fl: "fs filename = Some old"
      and len: "5 \<le> length (splitlines old)"
      and marker: "startswith (splitlines old ! 4) ''# checksum:''"
      and calc: "calculateYamlFileChecksum h old = Inr c"
  shows "(old = join [LF] ((splitlines old)[4 := ''# checksum: '' @ c]) @ [LF]
            \<longrightarrow> checkOrUpdateChecksum h fs filename update
                  = (None, fs, [''OK, checksum valid.'']))
       \<and> (old \<noteq> join [LF] ((splitlines old)[4 := ''# checksum: '' @ c]) @ [LF]
            \<longrightarrow> checkOrUpdateChecksum h fs filename True
                  = (None,
                     fs(filename \<mapsto> join [LF] ((splitlines old)[4 := ''# checksum: '' @ c]) @ [LF]),
                     [''OK, updated checksum.''])
              \<and> checkOrUpdateChecksum h fs filename False
                  = (Some (SysExit
                       ''Error, checksum does not match, use --update or enable commit hook.''),
                     fs, []))"
proof -
  have g: "\<not> length (splitlines old) < 5" using len by simp
  show ?thesis
    using fl g marker calc
    by (auto simp: checkOrUpdateChecksum_def getFileContents_def Let_def)
qed


lemma stale_file_lines:
  "splitlines stale_file = [''a'', ''b'', ''c'', ''d'', ''# checksum: 00'', ''---'', ''x'']"
  by (simp add: stale_file_def LF_def CR_def)

lemma good_file_lines:
  "splitlines good_file = [''a'', ''b'', ''c'', ''d'', ''# checksum: 0f'', ''---'', ''x'']"
  by (simp add: good_file_def LF_def CR_def)

lemma crlf_file_lines:
  "splitlines crlf_file = [''a'', ''b'', ''c'', ''d'', ''# checksum: 0f'', ''---'', ''x'']"
  by (simp add: crlf_file_def LF_def CR_def)

lemma stale_file_checksum: "calculateYamlFileChecksum const_hash stale_file = Inr ''0f''"
  by (simp add: calculateYamlFileChecksum_def stale_file_def header_sep_def LF_def
        py_index_def encode_utf8_def const_hash_def numeral_2_eq_2)

lemma good_file_checksum: "calculateYamlFileChecksum const_hash good_file = Inr ''0f''"
  by (simp add: calculateYamlFileChecksum_def good_file_def header_sep_def LF_def
        py_index_def encode_utf8_def const_hash_def numeral_2_eq_2)

lemma crlf_file_checksum: "calculateYamlFileChecksum const_hash crlf_file = Inr ''0f''"
  by (simp add: calculateYamlFileChecksum_def crlf_file_def header_sep_def LF_def CR_def
        py_index_def encode_utf8_def const_hash_def numeral_2_eq_2)

lemma stale_crlf_file_lines:
  "splitlines stale_crlf_file = [''a'', ''b'', ''c'', ''d'', ''# checksum: 00'', ''---'', ''x'']"
  by (simp add: stale_crlf_file_def LF_def CR_def)

lemma stale_crlf_file_checksum:
  "calculateYamlFileChecksum const_hash stale_crlf_file = Inr ''0f''"
  by (simp add: calculateYamlFileChecksum_def stale_crlf_file_def header_sep_def LF_def CR_def
        py_index_def encode_utf8_def const_hash_def numeral_2_eq_2)

lemma nosep_file_lines:
  "splitlines nosep_file = [''a'', ''b'', ''c'', ''d'', ''# checksum: 00'', ''x'']"
  by (simp add: nosep_file_def LF_def CR_def)

lemma nosep_file_no_separator: "\<not> sublist header_sep nosep_file"
  by (simp add: contains_sublist [symmetric] nosep_file_def header_sep_def LF_def)

lemma marker_line_tokens:
  "split_ws ''# checksum: 00'' = [''#'', ''checksum:'', ''00'']"
  "split_ws ''# checksum: 0f'' = [''#'', ''checksum:'', ''0f'']"
  by (simp_all add: split_ws_def is_space_def)

theorem stale_checksum_rewrite_witness:
  "checkOrUpdateChecksum const_hash [''f.yml'' \<mapsto> nosep_file] ''f.yml'' True
     = (Some (ValueError ''Malformed yaml data without --- header''),
        [''f.yml'' \<mapsto> nosep_file], [])
   \<and> getYamlFileChecksum stale_file = Inr (Some ''00'')
   \<and> calculateYamlFileChecksum const_hash stale_file = Inr ''0f''
   \<and> checkOrUpdateChecksum const_hash [''f.yml'' \<mapsto> stale_file] ''f.yml'' True
       = (None, [''f.yml'' \<mapsto> good_file], [''OK, updated checksum.''])
   \<and> splitlines good_file = (splitlines stale_file)[4 := ''# checksum: 0f'']
   \<and> stale_file = (''a'' @ [LF] @ ''b'' @ [LF] @ ''c'' @ [LF] @ ''d'' @ [LF])
         @ ''# checksum: 00'' @ LF # (''---'' @ [LF] @ ''x'' @ [LF])
   \<and> good_file = (''a'' @ [LF] @ ''b'' @ [LF] @ ''c'' @ [LF] @ ''d'' @ [LF])
         @ ''# checksum: 0f'' @ LF # (''---'' @ [LF] @ ''x'' @ [LF])
   \<and> checkOrUpdateChecksum const_hash [''f.yml'' \<mapsto> stale_file] ''f.yml'' False
       = (Some (SysExit ''Error, checksum does not match, use --update or enable commit hook.''),
          [''f.yml'' \<mapsto> stale_file], [])"
proof -
  have fl0: "[''f.yml'' \<mapsto> nosep_file] ''f.yml'' = Some nosep_file" by simp
  have len0: "5 \<le> length (splitlines nosep_file)" by (simp add: nosep_file_lines)
  have marker0: "startswith (splitlines nosep_file ! 4) ''# checksum:''"
    by (simp add: nosep_file_lines startswith_def)
  have 0: "checkOrUpdateChecksum const_hash [''f.yml'' \<mapsto> nosep_file] ''f.yml'' True
     = (Some (ValueError ''Malformed yaml data without --- header''),
        [''f.yml'' \<mapsto> nosep_file], [])"
    using stale_checksum_rewrite
        [where fs = "[''f.yml'' \<mapsto> nosep_file]" and filename = "''f.yml''",
         OF fl0 len0 marker0, THEN conjunct1] nosep_file_no_separator
    by blast
  have fl: "[''f.yml'' \<mapsto> stale_file] ''f.yml'' = Some stale_file" by simp
  have len: "5 \<le> length (splitlines stale_file)" by (simp add: stale_file_lines)
  have marker: "startswith (splitlines stale_file ! 4) ''# checksum:''"
    by (simp add: stale_file_lines startswith_def)
  have stored: "getYamlFileChecksum stale_file = Inr (Some ''00'')"
    by (simp add: getYamlFileChecksum_def stale_file_lines startswith_def marker_line_tokens
          py_index_def)
  have hyp: "calculateYamlFileChecksum const_hash stale_file = Inr ''0f''
              \<and> ''0f'' \<noteq> [] \<and> (\<forall>ch\<in>set ''0f''. \<not> is_space ch)
              \<and> getYamlFileChecksum stale_file \<noteq> Inr (Some ''0f'')"
    by (simp add: stale_file_checksum stored is_space_def)
  have u: "''# checksum: '' @ ''0f'' = ''# checksum: 0f''" by simp
  have n: "join [LF] ((splitlines stale_file)[4 := ''# checksum: 0f'']) @ [LF] = good_file"
    unfolding stale_file_lines by (simp add: good_file_def)
  have norm: "stale_file = join [LF] (splitlines stale_file) @ [LF]"
    unfolding stale_file_lines by (simp add: stale_file_def)
  have m: "[''f.yml'' \<mapsto> stale_file](''f.yml'' \<mapsto> good_file) = [''f.yml'' \<mapsto> good_file]"
    by simp
  note T = stale_checksum_rewrite
        [where fs = "[''f.yml'' \<mapsto> stale_file]" and filename = "''f.yml''",
         OF fl len marker, THEN conjunct2, THEN spec, of const_hash "''0f''",
         THEN mp, OF hyp, unfolded u n m]
  have 1: "checkOrUpdateChecksum const_hash [''f.yml'' \<mapsto> stale_file] ''f.yml'' True
       = (None, [''f.yml'' \<mapsto> good_file], [''OK, updated checksum.''])"
    using T by blast
  have 2: "splitlines good_file = (splitlines stale_file)[4 := ''# checksum: 0f'']"
    using T by blast
  have 3: "checkOrUpdateChecksum const_hash [''f.yml'' \<mapsto> stale_file] ''f.yml'' False
       = (Some (SysExit ''Error, checksum does not match, use --update or enable commit hook.''),
          [''f.yml'' \<mapsto> stale_file], [])"
    using T by blast
  have B: "stale_file = concat (map (\<lambda>l. l @ [LF]) (take 4 (splitlines stale_file)))
                          @ splitlines stale_file ! 4
                          @ LF # concat (map (\<lambda>l. l @ [LF]) (drop 5 (splitlines stale_file)))
           \<and> good_file = concat (map (\<lambda>l. l @ [LF]) (take 4 (splitlines stale_file)))
                          @ ''# checksum: 0f''
                          @ LF # concat (map (\<lambda>l. l @ [LF]) (drop 5 (splitlines stale_file)))"
    using T norm by blast
  have p: "concat (map (\<lambda>l. l @ [LF]) (take 4 (splitlines stale_file)))
             = ''a'' @ [LF] @ ''b'' @ [LF] @ ''c'' @ [LF] @ ''d'' @ [LF]"
    unfolding stale_file_lines by simp
  have q: "concat (map (\<lambda>l. l @ [LF]) (drop 5 (splitlines stale_file)))
             = ''---'' @ [LF] @ ''x'' @ [LF]"
    unfolding stale_file_lines by simp
  have l4: "splitlines stale_file ! 4 = ''# checksum: 00''"
    unfolding stale_file_lines by simp
  note B' = B [unfolded p q l4]
  from 0 stored stale_file_checksum 1 2 B' 3 show ?thesis by blast
qed

text \<open>
  C8 as stated fails for a file with another line end than \<open>\n\<close>: the file is
  written anew with \<open>\n\<close> after every line, so line 0 of this file, \<open>a\<close> with
  \<open>\r\n\<close>, is not the same bytes afterwards.
\<close>

theorem stale_checksum_rewrite_counterexample:
  "5 \<le> length (splitlines stale_crlf_file)
   \<and> startswith (splitlines stale_crlf_file ! 4) ''# checksum:''
   \<and> getYamlFileChecksum stale_crlf_file = Inr (Some ''00'')
   \<and> calculateYamlFileChecksum const_hash stale_crlf_file = Inr ''0f''
   \<and> checkOrUpdateChecksum const_hash [''f.yml'' \<mapsto> stale_crlf_file] ''f.yml'' True
       = (None, [''f.yml'' \<mapsto> good_file], [''OK, updated checksum.''])
   \<and> take 3 stale_crlf_file = [CHR ''a'', CR, LF]
   \<and> take 3 good_file = [CHR ''a'', LF, CHR ''b'']"
proof -
  have n: "join [LF] ((splitlines stale_crlf_file)[4 := ''# checksum: 0f'']) @ [LF]
             = good_file"
    unfolding stale_crlf_file_lines by (simp add: good_file_def)
  have d: "good_file \<noteq> stale_crlf_file"
    by (simp add: good_file_def stale_crlf_file_def LF_def CR_def)
  have 1: "5 \<le> length (splitlines stale_crlf_file)"
    "startswith (splitlines stale_crlf_file ! 4) ''# checksum:''"
    by (simp_all add: stale_crlf_file_lines startswith_def)
  have 2: "getYamlFileChecksum stale_crlf_file = Inr (Some ''00'')"
    by (simp add: getYamlFileChecksum_def stale_crlf_file_lines startswith_def
          marker_line_tokens py_index_def)
  have g: "\<not> length (splitlines stale_crlf_file) < 5" using 1(1) by simp
  have 3: "checkOrUpdateChecksum const_hash [''f.yml'' \<mapsto> stale_crlf_file] ''f.yml'' True
       = (None, [''f.yml'' \<mapsto> good_file], [''OK, updated checksum.''])"
    using g 1(2) d
    by (simp add: checkOrUpdateChecksum_def getFileContents_def stale_crlf_file_checksum n
          Let_def)
  have 4: "take 3 stale_crlf_file = [CHR ''a'', CR, LF]"
    "take 3 good_file = [CHR ''a'', LF, CHR ''b'']"
    by (simp_all add: stale_crlf_file_def good_file_def)
  from 1 2 stale_crlf_file_checksum 3 4 show ?thesis by blast
qed

theorem whole_file_comparison_witness:
  "getYamlFileChecksum crlf_file = Inr (Some ''0f'')
   \<and> calculateYamlFileChecksum const_hash crlf_file = Inr ''0f''
   \<and> checkOrUpdateChecksum const_hash [''f.yml'' \<mapsto> crlf_file] ''f.yml'' False
       = (Some (SysExit ''Error, checksum does not match, use --update or enable commit hook.''),
          [''f.yml'' \<mapsto> crlf_file], [])
   \<and> checkOrUpdateChecksum const_hash [''f.yml'' \<mapsto> crlf_file] ''f.yml'' True
       = (None, [''f.yml'' \<mapsto> good_file], [''OK, updated checksum.''])
   \<and> checkOrUpdateChecksum const_hash [''f.yml'' \<mapsto> good_file] ''f.yml'' False
       = (None, [''f.yml'' \<mapsto> good_file], [''OK, checksum valid.''])"
proof -
  have u: "''# checksum: '' @ ''0f'' = ''# checksum: 0f''" by simp
  have stored: "getYamlFileChecksum crlf_file = Inr (Some ''0f'')"
    by (simp add: getYamlFileChecksum_def crlf_file_lines startswith_def split_ws_def
          is_space_def py_index_def)
  have fl: "[''f.yml'' \<mapsto> crlf_file] ''f.yml'' = Some crlf_file" by simp
  have len: "5 \<le> length (splitlines crlf_file)" by (simp add: crlf_file_lines)
  have marker: "startswith (splitlines crlf_file ! 4) ''# checksum:''"
    by (simp add: crlf_file_lines startswith_def)
  have n: "join [LF] ((splitlines crlf_file)[4 := ''# checksum: 0f'']) @ [LF] = good_file"
    by (simp add: crlf_file_lines good_file_def)
  have d: "crlf_file \<noteq> good_file"
    by (simp add: crlf_file_def good_file_def LF_def CR_def)
  have m: "[''f.yml'' \<mapsto> crlf_file](''f.yml'' \<mapsto> good_file) = [''f.yml'' \<mapsto> good_file]"
    by simp
  note T = whole_file_comparison
        [where fs = "[''f.yml'' \<mapsto> crlf_file]" and filename = "''f.yml''",
         OF fl len marker crlf_file_checksum, unfolded u n m]
  have fl': "[''f.yml'' \<mapsto> good_file] ''f.yml'' = Some good_file" by simp
  have len': "5 \<le> length (splitlines good_file)" by (simp add: good_file_lines)
  have marker': "startswith (splitlines good_file ! 4) ''# checksum:''"
    by (simp add: good_file_lines startswith_def)
  have n': "join [LF] ((splitlines good_file)[4 := ''# checksum: 0f'']) @ [LF] = good_file"
    unfolding good_file_lines by (simp add: good_file_def)
  note T' = whole_file_comparison
        [where fs = "[''f.yml'' \<mapsto> good_file]" and filename = "''f.yml''" and update = False,
         OF fl' len' marker' good_file_checksum, unfolded u n']
  show ?thesis
    using T T' d stored crlf_file_checksum by blast
qed

subsection \<open>Loading a packaged resource\<close>

lemma find_sep_None: "find_sep sep s = None \<longleftrightarrow> \<not> sublist sep s"
  by (induction s) (auto simp: sublist_Cons_right split: option.splits)

lemma split_max_nonempty: "split_max sep n s \<noteq> []"
  by (cases n) (auto split: option.splits)

lemma checksum_defined:
  assumes "sublist header_sep d"
  shows "\<exists>c. calculateYamlFileChecksum h d = Inr c"
proof -
  obtain a r where ar: "find_sep header_sep d = Some (a, r)"
    using assms find_sep_None [of header_sep d] by (cases "find_sep header_sep d") auto
  have "split_max header_sep 2 d = a # split_max header_sep 1 r"
    using ar by (simp add: numeral_2_eq_2)
  then have "1 < length (split_max header_sep 2 d)"
    using split_max_nonempty [of header_sep 1 r] by (cases "split_max header_sep 1 r") auto
  then show ?thesis
    using assms by (simp add: calculateYamlFileChecksum_def contains_sublist py_index_def)
qed

lemma validated_cases:
  "validated h d = Inr v \<Longrightarrow> v = ''matching'' \<or> v = ''not matching'' \<or> v = ''not present''"
  by (auto simp: validated_def Let_def split: if_splits sum.splits)

lemma parsePackageYaml_miss:
  assumes "yaml_cache s (pkg, fn) = None" "get_data E pkg fn = Inr (Some d)"
      and "validated (getStringHash E) d = Inr v"
  shows "parsePackageYaml E pkg fn s =
     (let s2 = s\<lparr>warnings := warnings s @ (if v \<noteq> ''matching'' then [msg_using fn v] else []),
                  parse_calls := parse_calls s @ [d],
                  parsed_keys := parsed_keys s @ [(pkg, fn)]\<rparr>
      in case parseYaml E d of
           Inl e \<Rightarrow> (Inl e, s2)
         | Inr parsed \<Rightarrow>
            (case PackageConfigYaml_init (checkModuleName E) (str_object E) fn parsed of
               Inl e \<Rightarrow> (Inl e, s2)
             | Inr doc \<Rightarrow>
                (Inr (length (heap s)),
                 s2\<lparr>heap := heap s @ [doc],
                    yaml_cache := (yaml_cache s)((pkg, fn) \<mapsto> length (heap s))\<rparr>)))"
  using assms by (simp add: parsePackageYaml_def Let_def split: sum.splits)

text \<open>
  C5, as amended. For a resource that is not in the cache: the status is
  \<open>not present\<close> when there are fewer than five lines or line 4 lacks the marker;
  when line 4 has the marker and a third token and the content has the separator, the
  status is \<open>not matching\<close> or \<open>matching\<close>, as that token differs from the
  computed digest or not; when line 4 has the marker and a third token and the content has
  no separator, the \<open>ValueError\<close> of the checksum computation ends the load.
  Whenever a status is reached, it is one of the three, a warning is given exactly when
  it is not \<open>matching\<close>, the content goes to the YAML loader, and the result of the
  load is that of parsing and constructing the document.
\<close>

theorem checksum_status_warns:
  assumes miss: "yaml_cache s (pkg, fn) = None"
      and res: "get_data E pkg fn = Inr (Some d)"
  shows "(length (splitlines d) \<le> 4 \<or> \<not> startswith (splitlines d ! 4) ''# checksum: ''
            \<longrightarrow> validated (getStringHash E) d = Inr ''not present'')
       \<and> (4 < length (splitlines d) \<and> startswith (splitlines d ! 4) ''# checksum: ''
            \<and> 2 < length (split_ws (splitlines d ! 4)) \<and> sublist header_sep d
            \<longrightarrow> (\<exists>c. calculateYamlFileChecksum (getStringHash E) d = Inr c
                  \<and> validated (getStringHash E) d
                      = Inr (if split_ws (splitlines d ! 4) ! 2 \<noteq> c
                             then ''not matching'' else ''matching'')))
       \<and> (4 < length (splitlines d) \<and> startswith (splitlines d ! 4) ''# checksum: ''
            \<and> 2 < length (split_ws (splitlines d ! 4)) \<and> \<not> sublist header_sep d
            \<longrightarrow> parsePackageYaml E pkg fn s
                  = (Inl (ValueError ''Malformed yaml data without --- header''), s))
       \<and> (\<forall>v. validated (getStringHash E) d = Inr v
            \<longrightarrow> (v = ''matching'' \<or> v = ''not matching'' \<or> v = ''not present'')
              \<and> warnings (snd (parsePackageYaml E pkg fn s))
                  = warnings s @ (if v \<noteq> ''matching'' then [msg_using fn v] else [])
              \<and> parse_calls (snd (parsePackageYaml E pkg fn s)) = parse_calls s @ [d]
              \<and> fst (parsePackageYaml E pkg fn s)
                  = (case parseYaml E d of
                       Inl e \<Rightarrow> Inl e
                     | Inr parsed \<Rightarrow>
                        (case PackageConfigYaml_init (checkModuleName E) (str_object E) fn parsed of
                           Inl e \<Rightarrow> Inl e
                         | Inr doc \<Rightarrow> Inr (length (heap s)))))"
proof (intro conjI impI allI)
  assume "length (splitlines d) \<le> 4 \<or> \<not> startswith (splitlines d ! 4) ''# checksum: ''"
  then show "validated (getStringHash E) d = Inr ''not present''"
    by (auto simp: validated_def Let_def)
next
  assume a: "4 < length (splitlines d) \<and> startswith (splitlines d ! 4) ''# checksum: ''
            \<and> 2 < length (split_ws (splitlines d ! 4)) \<and> sublist header_sep d"
  then obtain c where c: "calculateYamlFileChecksum (getStringHash E) d = Inr c"
    using checksum_defined by blast
  then have "validated (getStringHash E) d
                      = Inr (if split_ws (splitlines d ! 4) ! 2 \<noteq> c
                             then ''not matching'' else ''matching'')"
    using a by (simp add: validated_def Let_def py_index_def)
  with c show "\<exists>c. calculateYamlFileChecksum (getStringHash E) d = Inr c
                  \<and> validated (getStringHash E) d
                      = Inr (if split_ws (splitlines d ! 4) ! 2 \<noteq> c
                             then ''not matching'' else ''matching'')"
    by blast
next
  assume a: "4 < length (splitlines d) \<and> startswith (splitlines d ! 4) ''# checksum: ''
            \<and> 2 < length (split_ws (splitlines d ! 4)) \<and> \<not> sublist header_sep d"
  then have "validated (getStringHash E) d
               = Inl (ValueError ''Malformed yaml data without --- header'')"
    by (simp add: validated_def Let_def py_index_def calculateYamlFileChecksum_def
          contains_sublist)
  then show "parsePackageYaml E pkg fn s
                  = (Inl (ValueError ''Malformed yaml data without --- header''), s)"
    using miss res by (simp add: parsePackageYaml_def)
next
  fix v assume v: "validated (getStringHash E) d = Inr v"
  show "v = ''matching'' \<or> v = ''not matching'' \<or> v = ''not present''"
    using validated_cases [OF v] .
  note P = parsePackageYaml_miss [OF miss res v]
  show "warnings (snd (parsePackageYaml E pkg fn s))
                  = warnings s @ (if v \<noteq> ''matching'' then [msg_using fn v] else [])"
    unfolding P by (simp add: Let_def split: sum.splits)
  show "parse_calls (snd (parsePackageYaml E pkg fn s)) = parse_calls s @ [d]"
    unfolding P by (simp add: Let_def split: sum.splits)
  show "fst (parsePackageYaml E pkg fn s)
                  = (case parseYaml E d of
                       Inl e \<Rightarrow> Inl e
                     | Inr parsed \<Rightarrow>
                        (case PackageConfigYaml_init (checkModuleName E) (str_object E) fn parsed of
                           Inl e \<Rightarrow> Inl e
                         | Inr doc \<Rightarrow> Inr (length (heap s))))"
    unfolding P by (simp add: Let_def split: sum.splits)
qed


lemma example_env_fields:
  "get_data example_env ''p'' ''nosep.yml'' = Inr (Some nosep_file)"
  "get_data example_env ''p'' ''stale.yml'' = Inr (Some stale_file)"
  "get_data example_env ''p'' ''good.yml'' = Inr (Some good_file)"
  "getStringHash example_env = const_hash"
  "checkModuleName example_env = (\<lambda>v. True)"
  "str_object example_env = example_text"
  by (simp_all add: example_env_def)

lemma example_parse_other:
  "b \<noteq> ''s'' \<Longrightarrow> b \<noteq> ''2'' \<Longrightarrow> b \<noteq> ''k''
     \<Longrightarrow> parseYaml example_env b = Inr ((\<lambda>a. PNone), DataList [])"
  by (simp add: example_env_def)

lemma files_differ:
  "nosep_file \<noteq> ''s''" "nosep_file \<noteq> ''2''" "nosep_file \<noteq> ''k''"
  "stale_file \<noteq> ''s''" "stale_file \<noteq> ''2''" "stale_file \<noteq> ''k''"
  "good_file \<noteq> ''s''" "good_file \<noteq> ''2''" "good_file \<noteq> ''k''"
  by (simp_all add: nosep_file_def stale_file_def good_file_def)

text \<open>
  C5 as stated fails: a resource whose line 4 holds a checksum while the content has no
  separator ends the load in the classification, although the loader and the
  constructor would accept the content.
\<close>

theorem checksum_status_counterexample:
  "parsePackageYaml example_env ''p'' ''nosep.yml'' initial_state
     = (Inl (ValueError ''Malformed yaml data without --- header''), initial_state)
   \<and> parseYaml example_env nosep_file = Inr ((\<lambda>a. PNone), DataList [])
   \<and> PackageConfigYaml_init (checkModuleName example_env) (str_object example_env)
         ''nosep.yml'' ((\<lambda>a. PNone), DataList [])
       = Inr \<lparr>name = ''nosep.yml'', data = []\<rparr>"
proof -
  have v: "validated const_hash nosep_file
             = Inl (ValueError ''Malformed yaml data without --- header'')"
    using nosep_file_no_separator
    by (simp add: validated_def nosep_file_lines startswith_def marker_line_tokens py_index_def
          calculateYamlFileChecksum_def contains_sublist)
  have "parsePackageYaml example_env ''p'' ''nosep.yml'' initial_state
     = (Inl (ValueError ''Malformed yaml data without --- header''), initial_state)"
    by (simp add: parsePackageYaml_def example_env_fields v initial_state_def)
  then show ?thesis
    by (simp add: example_parse_other files_differ)
qed


lemma example_files_separator:
  "sublist header_sep stale_file" "sublist header_sep good_file"
  by (simp_all add: contains_sublist [symmetric] stale_file_def good_file_def header_sep_def
        LF_def)

theorem checksum_status_warns_witness:
  "validated const_hash ''s'' = Inr ''not present''
   \<and> validated const_hash stale_file = Inr ''not matching''
   \<and> warnings (snd (parsePackageYaml example_env ''p'' ''stale.yml'' initial_state))
       = [msg_using ''stale.yml'' ''not matching'']
   \<and> parse_calls (snd (parsePackageYaml example_env ''p'' ''stale.yml'' initial_state))
       = [stale_file]
   \<and> fst (parsePackageYaml example_env ''p'' ''stale.yml'' initial_state) = Inr 0
   \<and> validated const_hash good_file = Inr ''matching''
   \<and> warnings (snd (parsePackageYaml example_env ''p'' ''good.yml'' initial_state)) = []
   \<and> parsePackageYaml example_env ''p'' ''nosep.yml'' initial_state
       = (Inl (ValueError ''Malformed yaml data without --- header''), initial_state)"
proof -
  have miss: "\<And>fn. yaml_cache initial_state (''p'', fn) = None"
    by (simp add: initial_state_def)
  have init: "warnings initial_state = []" "parse_calls initial_state = []"
    "heap initial_state = []"
    by (simp_all add: initial_state_def)
  have res0: "get_data example_env ''p'' ''standard.nuitka-package.config.yml''
                = Inr (Some ''s'')"
    by (simp add: example_env_def)
  note T0 = checksum_status_warns [OF miss res0, unfolded example_env_fields(4)]
  have short: "length (splitlines ''s'') \<le> 4" by (simp add: LF_def CR_def)
  have 0: "validated const_hash ''s'' = Inr ''not present''"
    using T0 [THEN conjunct1] short by blast
  note T1 = checksum_status_warns [OF miss example_env_fields(2),
      unfolded example_env_fields(4) example_env_fields(5) example_env_fields(6)]
  have a1: "4 < length (splitlines stale_file)
      \<and> startswith (splitlines stale_file ! 4) ''# checksum: ''
      \<and> 2 < length (split_ws (splitlines stale_file ! 4)) \<and> sublist header_sep stale_file"
    by (simp add: stale_file_lines startswith_def marker_line_tokens example_files_separator)
  have 1: "validated const_hash stale_file = Inr ''not matching''"
    using T1 [THEN conjunct2, THEN conjunct1] a1 stale_file_checksum
    by (simp add: stale_file_lines marker_line_tokens)
  have p1: "parseYaml example_env stale_file = Inr ((\<lambda>a. PNone), DataList [])"
    by (simp add: example_parse_other files_differ)
  have 2: "warnings (snd (parsePackageYaml example_env ''p'' ''stale.yml'' initial_state))
       = [msg_using ''stale.yml'' ''not matching'']
     \<and> parse_calls (snd (parsePackageYaml example_env ''p'' ''stale.yml'' initial_state))
       = [stale_file]
     \<and> fst (parsePackageYaml example_env ''p'' ''stale.yml'' initial_state) = Inr 0"
    using T1 [THEN conjunct2, THEN conjunct2, THEN conjunct2, THEN spec, of "''not matching''"] 1
    by (simp add: init p1)
  note T2 = checksum_status_warns [OF miss example_env_fields(3),
      unfolded example_env_fields(4) example_env_fields(5) example_env_fields(6)]
  have a2: "4 < length (splitlines good_file)
      \<and> startswith (splitlines good_file ! 4) ''# checksum: ''
      \<and> 2 < length (split_ws (splitlines good_file ! 4)) \<and> sublist header_sep good_file"
    by (simp add: good_file_lines startswith_def marker_line_tokens example_files_separator)
  have 3: "validated const_hash good_file = Inr ''matching''"
    using T2 [THEN conjunct2, THEN conjunct1] a2 good_file_checksum
    by (simp add: good_file_lines marker_line_tokens)
  have 4: "warnings (snd (parsePackageYaml example_env ''p'' ''good.yml'' initial_state)) = []"
    using T2 [THEN conjunct2, THEN conjunct2, THEN conjunct2, THEN spec, of "''matching''"] 3
    by (simp add: init)
  note T3 = checksum_status_warns [OF miss example_env_fields(1),
      unfolded example_env_fields(4) example_env_fields(5) example_env_fields(6)]
  have a3: "4 < length (splitlines nosep_file)
      \<and> startswith (splitlines nosep_file ! 4) ''# checksum: ''
      \<and> 2 < length (split_ws (splitlines nosep_file ! 4)) \<and> \<not> sublist header_sep nosep_file"
    by (simp add: nosep_file_lines startswith_def marker_line_tokens nosep_file_no_separator)
  have 5: "parsePackageYaml example_env ''p'' ''nosep.yml'' initial_state
       = (Inl (ValueError ''Malformed yaml data without --- header''), initial_state)"
    using T3 [THEN conjunct2, THEN conjunct2, THEN conjunct1] a3 by blast
  from 0 1 2 3 4 5 show ?thesis by blast
qed

subsection \<open>The cache and the singleton\<close>





















end
